theory Spec2Isabelle
  imports Main "HOL-Library.AList"
begin

section \<open>Values and errors of the top-down evaluator\<close>

text \<open>
  The evaluator of \<^verbatim>\<open>v1/topdown/eval.go\<close> works on AST values. A value is a tagged
  union; a term pairs a value with a source location, which no function modelled here
  reads, so a term is modelled by its value. Numbers are kept as integers. A
  comprehension carries its head term(s) and the identifier of its body.
\<close>

datatype val =
    Null
  | Boolean bool
  | Number int
  | String string
  | Array "val list"
  | Object "(val \<times> val) list"
  | Set "val list"
  | Var string
  | Ref "val list"
  | ArrayComprehension val nat
  | SetComprehension val nat
  | ObjectComprehension val val nat

type_synonym object = "(val \<times> val) list"

text \<open>
  Modelled from the spec: \<^verbatim>\<open>ast.Object\<close> is declared outside the sources at hand. The
  spec's data model gives "an ordered mapping from term to term, duplicate keys
  forbidden": \<^verbatim>\<open>Get\<close> looks a key up, \<^verbatim>\<open>Insert\<close> stores a value at a key (replacing
  the value of a key already there), \<^verbatim>\<open>Until\<close> and \<^verbatim>\<open>Foreach\<close> visit the entries in
  order.
\<close>

definition obj_Get :: "object \<Rightarrow> val \<Rightarrow> val option" where
  "obj_Get obj k = map_of obj k"

definition obj_Insert :: "val \<Rightarrow> val \<Rightarrow> object \<Rightarrow> object" where
  "obj_Insert k v obj = AList.update k v obj"

definition obj_keys_unique :: "object \<Rightarrow> bool" where
  "obj_keys_unique obj = distinct (map fst obj)"

fun isObject :: "val \<Rightarrow> bool" where
  "isObject (Object obj) = True"
| "isObject v = False"

text \<open>
  Errors. \<^verbatim>\<open>earlyExitError\<close> and \<^verbatim>\<open>deferredEarlyExitError\<close> wrap an optional previous
  error (\<^verbatim>\<open>prev\<close>); \<^verbatim>\<open>Halt\<close> wraps the error it carries. The conflict errors are the
  values built by \<^verbatim>\<open>functionConflictErr\<close>, \<^verbatim>\<open>completeDocConflictErr\<close>,
  \<^verbatim>\<open>objectDocKeyConflictErr\<close> and \<^verbatim>\<open>mergeConflictErr\<close>, each with the location it is
  given (a rule or term identifier here). \<^verbatim>\<open>OtherErr\<close> stands for every other error
  value (cancellation, storage, built-in errors, ...).
\<close>

datatype error =
    EarlyExitError "error option"
  | DeferredEarlyExitError "error option"
  | Halt error
  | FunctionConflictErr nat
  | CompleteDocConflictErr nat
  | ObjectDocKeyConflictErr nat
  | MergeConflictErr nat
  | WithMergeConflictErr string
  | OtherErr string

section \<open>merge and mergeObjects\<close>

text \<open>
  \<^verbatim>\<open>mergeObjects\<close> (eval.go, 4256-4286) walks \<^verbatim>\<open>objA\<close> with \<^verbatim>\<open>Until\<close>; the callback
  fills \<^verbatim>\<open>result\<close> and answers \<^verbatim>\<open>true\<close> to stop the walk. \<^verbatim>\<open>mergeObjects_until\<close> is that
  walk over the entries still to visit: it returns the result so far and the \<^verbatim>\<open>stop\<close>
  flag. The second loop (\<^verbatim>\<open>Foreach\<close> over \<^verbatim>\<open>objB\<close>) is \<^verbatim>\<open>mergeObjects_foreach\<close>.
\<close>

fun mergeObjects_foreach :: "object \<Rightarrow> object \<Rightarrow> object \<Rightarrow> object" where
  "mergeObjects_foreach objA [] result = result"
| "mergeObjects_foreach objA ((k, v) # rest) result =
     (case obj_Get objA k of
        None \<Rightarrow> mergeObjects_foreach objA rest (obj_Insert k v result)
      | Some v2 \<Rightarrow> mergeObjects_foreach objA rest result)"

function mergeObjects :: "object \<Rightarrow> object \<Rightarrow> object \<times> bool"
  and mergeObjects_until :: "object \<Rightarrow> object \<Rightarrow> object \<Rightarrow> object \<times> bool" where
  "mergeObjects objA objB =
     (case mergeObjects_until objA objB [] of
        (result, stop) \<Rightarrow>
          if stop then ([], False)
          else (mergeObjects_foreach objA objB result, True))"
| "mergeObjects_until [] objB result = (result, False)"
| "mergeObjects_until ((k, v) # rest) objB result =
     (case obj_Get objB k of
        None \<Rightarrow> mergeObjects_until rest objB (obj_Insert k v result)
      | Some v2 \<Rightarrow>
          (case v of
             Object obj1 \<Rightarrow>
               (case v2 of
                  Object obj2 \<Rightarrow>
                    (case mergeObjects obj1 obj2 of
                       (obj3, ok) \<Rightarrow>
                         if \<not> ok then (result, True)
                         else mergeObjects_until rest objB (obj_Insert k (Object obj3) result))
                | _ \<Rightarrow> mergeObjects_until rest objB (obj_Insert k v result))
           | _ \<Rightarrow> mergeObjects_until rest objB (obj_Insert k v result)))"
  by pat_completeness auto
termination
  by (relation "measure (\<lambda>x. case x of
          Inl (objA, objB) \<Rightarrow> 2 * size_list (size_prod size size) objA + 1
        | Inr (todo, objB, result) \<Rightarrow> 2 * size_list (size_prod size size) todo)")
     auto

declare mergeObjects.simps [simp del]

definition merge :: "val \<Rightarrow> val \<Rightarrow> val \<times> bool" where
  "merge a b =
     (case a of
        Object aObj \<Rightarrow>
          (case b of
             Object bObj \<Rightarrow> (case mergeObjects aObj bObj of (r, ok) \<Rightarrow> (Object r, ok))
           | _ \<Rightarrow> (a, True))
      | _ \<Rightarrow> (a, True))"


section \<open>The resolver's data read\<close>

text \<open>
  \<^verbatim>\<open>refContainsNonScalar\<close> (eval.go, 4288-4295) looks at \<^verbatim>\<open>ref[1:]\<close>; \<^verbatim>\<open>ast.IsScalar\<close>
  holds of strings, numbers, booleans and null.
\<close>

fun IsScalar :: "val \<Rightarrow> bool" where
  "IsScalar (String s) = True"
| "IsScalar (Number n) = True"
| "IsScalar (Boolean b) = True"
| "IsScalar Null = True"
| "IsScalar v = False"

definition refContainsNonScalar :: "val list \<Rightarrow> bool" where
  "refContainsNonScalar ref = list_ex (\<lambda>t. \<not> IsScalar t) (tl ref)"

text \<open>
  What the storage layer answers to a read (\<^verbatim>\<open>e.external.Resolve\<close>, then
  \<^verbatim>\<open>e.store.Read\<close> and the conversion to an AST value): an error of the storage layer,
  "not found", or a value. The storage layer is outside the evaluator; its answer is a
  parameter of \<^verbatim>\<open>resolveReadFromStorage\<close> (eval.go, 1790-1861). The base cache is a map
  from references to values, passed in and returned. Timers and counters of the
  instrumentation are left out.
\<close>

datatype storage_read = ReadError string | ReadNotFound | ReadValue val

type_synonym baseCache = "val list \<rightharpoonup> val"

definition resolveReadFromStorage ::
  "nat \<Rightarrow> val list \<Rightarrow> val option \<Rightarrow> storage_read \<Rightarrow> baseCache
     \<Rightarrow> (val option \<times> error option) \<times> baseCache" where
  "resolveReadFromStorage loc ref a rd bc =
     (if refContainsNonScalar ref then ((a, None), bc)
      else case rd of
          ReadError msg \<Rightarrow> ((None, Some (OtherErr msg)), bc)
        | ReadNotFound \<Rightarrow> ((a, None), bc)
        | ReadValue v \<Rightarrow>
            (let bc' = bc(ref \<mapsto> v) in
             case a of
               None \<Rightarrow> ((Some v, None), bc')
             | Some a' \<Rightarrow>
                 (case merge a' v of
                    (merged, ok) \<Rightarrow>
                      if \<not> ok then ((None, Some (MergeConflictErr loc)), bc')
                      else ((Some merged, None), bc'))))"

text \<open>
  \<^verbatim>\<open>evalResolver.Resolve\<close> (eval.go, 1704-1788). Parameters for what lives outside the
  file: \<^verbatim>\<open>unknown\<close> is the test on inlining control and the save set, \<^verbatim>\<open>plug\<close> is
  \<^verbatim>\<open>PlugNamespaced\<close>, \<^verbatim>\<open>fnd\<close> is \<^verbatim>\<open>Value.Find\<close> (\<^verbatim>\<open>None\<close> when it reports an error),
  \<^verbatim>\<open>prefixed\<close> is \<^verbatim>\<open>targetStack.Prefixed(ref)\<close>. The document roots are the variables
  \<^verbatim>\<open>data\<close>, \<^verbatim>\<open>input\<close> and \<^verbatim>\<open>args\<close>.
\<close>

definition DefaultRootDocument :: val where "DefaultRootDocument = Var ''data''"
definition InputRootDocument :: val where "InputRootDocument = Var ''input''"
definition FunctionArgRootDocument :: val where "FunctionArgRootDocument = Var ''args''"

definition Resolve ::
  "bool \<Rightarrow> (val \<Rightarrow> val) \<Rightarrow> (val \<Rightarrow> val list \<Rightarrow> val option) \<Rightarrow> bool \<Rightarrow> val list
     \<Rightarrow> val option \<Rightarrow> val option \<Rightarrow> storage_read \<Rightarrow> nat \<Rightarrow> val list \<Rightarrow> baseCache
     \<Rightarrow> (val option \<times> error option) \<times> baseCache" where
  "Resolve unknown plug fnd prefixed args input data rd loc ref bc =
     (if unknown then ((None, Some (OtherErr ''unknown value'')), bc)
      else if hd ref = FunctionArgRootDocument then
        (case tl ref of
           Number i # rest \<Rightarrow>
             if 0 \<le> i \<and> i < int (length args) then ((Some (plug (args ! nat i)), None), bc)
             else ((None, Some (OtherErr ''unknown value'')), bc)
         | _ \<Rightarrow> ((None, Some (OtherErr ''unknown value'')), bc))
      else if hd ref = InputRootDocument then
        (case input of
           Some inp \<Rightarrow> ((fnd inp (tl ref), None), bc)
         | None \<Rightarrow> ((None, None), bc))
      else if hd ref = DefaultRootDocument then
        (let repValue = (case data of Some d \<Rightarrow> fnd d (tl ref) | None \<Rightarrow> None) in
         if prefixed then ((repValue, None), bc)
         else case bc ref of
             Some realValue \<Rightarrow>
               (case repValue of
                  None \<Rightarrow> ((Some realValue, None), bc)
                | Some rep \<Rightarrow>
                    (case merge rep realValue of
                       (merged, ok) \<Rightarrow>
                         if \<not> ok then ((None, Some (MergeConflictErr loc)), bc)
                         else ((Some merged, None), bc)))
           | None \<Rightarrow> resolveReadFromStorage loc ref repValue rd bc)
      else ((None, Some (OtherErr ''illegal ref'')), bc))"

section \<open>The evaluator's state and the evaluation of a body\<close>

text \<open>
  The fields of \<^verbatim>\<open>eval\<close> (eval.go, 66-119) that the functions below read or write.
  \<^verbatim>\<open>findOne\<close>, \<^verbatim>\<open>defined\<close>, \<^verbatim>\<open>input\<close> and \<^verbatim>\<open>data\<close> are fields of the struct itself;
  the others are reached through pointers that a copy of the struct shares.

  Modelled from the spec: the caches and stacks are declared outside the sources at
  hand. The virtual cache maps a reference to a term, where an entry may be the
  negative entry "evaluated and undefined" (\<^verbatim>\<open>Some None\<close> here); it, the comprehension
  cache, the target stack, the function-mock stack and the inlining-control stack are
  stacks of scopes on which \<^verbatim>\<open>Push\<close> opens a scope and \<^verbatim>\<open>Pop\<close> drops the newest one. A
  \<^verbatim>\<open>nil\<close> stack and an empty one are both the empty list. The save set is \<^verbatim>\<open>nil\<close>
  (\<^verbatim>\<open>None\<close>) outside partial evaluation.
\<close>

datatype saved = SavedExpr val | SavedUnify val val | SavedCall "val list"

type_synonym vc_scope = "val list \<rightharpoonup> val option"

record eval =
  findOne :: bool
  defined :: bool
  input :: "val option"
  data :: "val option"
  saveSet :: "val list list option"
  saveStack :: "saved list"
  virtualCache :: "vc_scope list"
  comprehensionCache :: "(val \<rightharpoonup> (val list \<rightharpoonup> val)) list"
  targetStack :: "val list list"
  functionMocks :: "(val \<times> val) list list"
  inliningControl :: "val list list"
  builtinErrors :: "error list"
  ndBuiltinCache :: "(string \<times> val list) \<rightharpoonup> val"
  virtualCacheHit :: nat
  virtualCacheMiss :: nat

type_synonym 's iterator = "'s \<Rightarrow> error option \<times> 's"

definition partial :: "eval \<Rightarrow> bool" where
  "partial e = (saveSet e \<noteq> None)"

text \<open>
  \<^verbatim>\<open>closure\<close> and \<^verbatim>\<open>child\<close> (eval.go, 187-204) copy the whole struct
  (\<^verbatim>\<open>*cpy = *e\<close>) and then reset \<^verbatim>\<open>index\<close>, \<^verbatim>\<open>query\<close>, \<^verbatim>\<open>queryID\<close>, \<^verbatim>\<open>parent\<close> and
  \<^verbatim>\<open>findOne\<close>; \<^verbatim>\<open>child\<close> also gives the copy fresh bindings. Of the fields kept here only
  \<^verbatim>\<open>findOne\<close> is reset: the copy starts with the \<^verbatim>\<open>defined\<close> flag of the original.
\<close>

definition closure :: "eval \<Rightarrow> eval" where
  "closure e = e\<lparr>findOne := False\<rparr>"

definition child :: "eval \<Rightarrow> eval" where
  "child e = e\<lparr>findOne := False\<rparr>"

fun isEarlyExit :: "error \<Rightarrow> bool" where
  "isEarlyExit (EarlyExitError prev) = True"
| "isEarlyExit (DeferredEarlyExitError prev) = True"
| "isEarlyExit err = False"

text \<open>
  \<^verbatim>\<open>suppressEarlyExit\<close> and \<^verbatim>\<open>withSuppressEarlyExit\<close> (eval.go, 4297-4311): an early
  exit is replaced by the error it wraps, which may be \<^verbatim>\<open>nil\<close>.
\<close>

fun suppressEarlyExit :: "error option \<Rightarrow> error option" where
  "suppressEarlyExit (Some (EarlyExitError prev)) = prev"
| "suppressEarlyExit (Some (DeferredEarlyExitError prev)) = prev"
| "suppressEarlyExit err = err"

definition withSuppressEarlyExit :: "error option \<times> 's \<Rightarrow> error option \<times> 's" where
  "withSuppressEarlyExit r =
     (case r of (Some err, s) \<Rightarrow> (suppressEarlyExit (Some err), s) | (None, s) \<Rightarrow> (None, s))"

text \<open>
  The end of a body in \<^verbatim>\<open>evalExpr\<close> (eval.go, 365-401): when \<^verbatim>\<open>index\<close> has reached
  the length of the query the continuation runs; an early exit it returns is wrapped
  (\<^verbatim>\<open>wrapErr\<close>), another error is returned as it is, and after a success a driver with
  \<^verbatim>\<open>findOne\<close> outside partial evaluation raises the early exit itself.
\<close>

definition wrapErr :: "bool \<Rightarrow> error \<Rightarrow> error" where
  "wrapErr fo err =
     (if \<not> fo then DeferredEarlyExitError (Some err) else EarlyExitError (Some err))"

definition evalExpr_done :: "bool \<Rightarrow> bool \<Rightarrow> 's iterator \<Rightarrow> 's iterator" where
  "evalExpr_done fo part iter s =
     (case iter s of
        (Some err, s') \<Rightarrow>
          if isEarlyExit err then (Some (wrapErr fo err), s') else (Some err, s')
      | (None, s') \<Rightarrow>
          if fo \<and> \<not> part then (Some (EarlyExitError None), s') else (None, s'))"

text \<open>
  The expressions of a body are evaluated by \<^verbatim>\<open>evalStep\<close> (unification, reference
  walks, calls), which is not unfolded here. A body is given by what its evaluation
  amounts to for the driver that runs it: the solutions the search reaches, in order
  (each with the data the continuation reads from the bindings there), and the error,
  if any, with which the search itself ends. At every solution \<^verbatim>\<open>evalExpr\<close> runs the
  end-of-body block above; an error returned there ends the search and is the result
  of \<^verbatim>\<open>eval\<close>. \<^verbatim>\<open>eval_body fo part sols fin iter\<close> is \<^verbatim>\<open>eval(iter)\<close> for a driver with
  \<^verbatim>\<open>findOne = fo\<close> and \<^verbatim>\<open>partial() = part\<close>.
\<close>

fun eval_body ::
  "bool \<Rightarrow> bool \<Rightarrow> 'a list \<Rightarrow> error option \<Rightarrow> ('a \<Rightarrow> 's iterator) \<Rightarrow> 's iterator" where
  "eval_body fo part [] fin iter s = (fin, s)"
| "eval_body fo part (x # xs) fin iter s =
     (case evalExpr_done fo part (iter x) s of
        (Some err, s') \<Rightarrow> (Some err, s')
      | (None, s') \<Rightarrow> eval_body fo part xs fin iter s')"

text \<open>
  Modelled from the spec: \<^verbatim>\<open>VirtualCache.Get\<close> answers the cached term and whether the
  entry is the negative one; \<^verbatim>\<open>Put\<close> stores a term, or \<^verbatim>\<open>nil\<close> for the negative entry.
  Both work on the newest scope (the cache is created with one scope).
\<close>

definition vc_Get :: "vc_scope list \<Rightarrow> val list \<Rightarrow> val option \<times> bool" where
  "vc_Get vc key =
     (case vc of
        [] \<Rightarrow> (None, False)
      | sc # rest \<Rightarrow>
          (case sc key of
             None \<Rightarrow> (None, False)
           | Some None \<Rightarrow> (None, True)
           | Some (Some v) \<Rightarrow> (Some v, False)))"

definition vc_Put :: "vc_scope list \<Rightarrow> val list \<Rightarrow> val option \<Rightarrow> vc_scope list" where
  "vc_Put vc key v = (case vc of [] \<Rightarrow> [] | sc # rest \<Rightarrow> sc(key \<mapsto> v) # rest)"

text \<open>
  \<^verbatim>\<open>saveExpr\<close> (eval.go, 1520-1527): the expression is pushed on the save stack while the
  continuation runs.
\<close>

definition saveExpr :: "saved \<Rightarrow> eval iterator \<Rightarrow> eval iterator" where
  "saveExpr x iter e =
     (case iter (e\<lparr>saveStack := x # saveStack e\<rparr>) of
        (err, e') \<Rightarrow> (err, e'\<lparr>saveStack := tl (saveStack e')\<rparr>))"

text \<open>
  What the rule loops do with the error of one rule (eval.go, 2137-2145 and
  3499-3507): a deferred early exit is remembered (the first one) and the loop goes on;
  any other error is returned at once (\<^verbatim>\<open>Inl\<close>).
\<close>

fun keepDeferred :: "error option \<Rightarrow> error option \<Rightarrow> error + error option" where
  "keepDeferred None outerEe = Inr outerEe"
| "keepDeferred (Some (DeferredEarlyExitError prev)) outerEe =
     Inr (if outerEe = None then Some (DeferredEarlyExitError prev) else outerEe)"
| "keepDeferred (Some err) outerEe = Inl err"

text \<open>
  A rule, for the reference or call being evaluated: its location, the number of
  arguments of its head, whether the save set holds its head value (partial evaluation
  only), and what evaluating its body in a child driver amounts to: the plugged head
  value at each solution (for a function, of the unification of the arguments and then
  the body), and the error with which the search ends.
\<close>

record rule =
  rule_location :: nat
  rule_head_args :: nat
  rule_head_unknown :: bool
  rule_sols :: "val list"
  rule_fin :: "error option"

text \<open>
  \<^verbatim>\<open>ast.IndexResult\<close>: the rules that apply, the \<^verbatim>\<open>else\<close> chain of each, the default rule
  and the early-exit hint of the rule index.
\<close>

record indexResult =
  Rules :: "rule list"
  Else :: "rule \<Rightarrow> rule list"
  Default :: "rule option"
  EarlyExit :: bool

text \<open>
  The loop over the rules of an index result is written twice in the source, with the
  same text, in \<^verbatim>\<open>evalFunc.evalValue\<close> (eval.go, 2130-2171) and in
  \<^verbatim>\<open>evalVirtualComplete.evalValue\<close> (eval.go, 3497-3528); only the call that evaluates
  one rule differs, and is the parameter \<^verbatim>\<open>oneRule\<close> here. \<^verbatim>\<open>ruleLoop_else\<close> is the inner
  loop over the \<^verbatim>\<open>else\<close> chain of a rule that produced nothing, \<^verbatim>\<open>ruleLoop\<close> the loop
  over the rules. Both return \<^verbatim>\<open>Inl\<close> of the error that makes the function return at
  once, or \<^verbatim>\<open>Inr\<close> of the variables they leave: \<^verbatim>\<open>next\<close> (or \<^verbatim>\<open>prev\<close>) and the remembered
  deferred early exit.
\<close>

type_synonym oneRule = "rule \<Rightarrow> val option \<Rightarrow> eval \<Rightarrow> (val option \<times> error option) \<times> eval"

fun ruleLoop_else ::
  "oneRule \<Rightarrow> rule list \<Rightarrow> val option \<Rightarrow> error option \<Rightarrow> eval
     \<Rightarrow> (error + val option \<times> error option) \<times> eval" where
  "ruleLoop_else oneRule [] prev outerEe e = (Inr (None, outerEe), e)"
| "ruleLoop_else oneRule (erule # rest) prev outerEe e =
     (case oneRule erule prev e of
        ((next, err), e') \<Rightarrow>
          (case keepDeferred err outerEe of
             Inl fatal \<Rightarrow> (Inl fatal, e')
           | Inr outerEe' \<Rightarrow>
               if next \<noteq> None then (Inr (next, outerEe'), e')
               else ruleLoop_else oneRule rest prev outerEe' e'))"

fun ruleLoop ::
  "oneRule \<Rightarrow> (rule \<Rightarrow> rule list) \<Rightarrow> rule list \<Rightarrow> val option \<Rightarrow> error option \<Rightarrow> eval
     \<Rightarrow> (error + val option \<times> error option) \<times> eval" where
  "ruleLoop oneRule elseOf [] prev outerEe e = (Inr (prev, outerEe), e)"
| "ruleLoop oneRule elseOf (rule # rest) prev outerEe e =
     (case oneRule rule prev e of
        ((next, err), e') \<Rightarrow>
          (case keepDeferred err outerEe of
             Inl fatal \<Rightarrow> (Inl fatal, e')
           | Inr outerEe' \<Rightarrow>
               if next = None then
                 (case ruleLoop_else oneRule (elseOf rule) prev outerEe' e' of
                    (Inl fatal, e'') \<Rightarrow> (Inl fatal, e'')
                  | (Inr (next', outerEe''), e'') \<Rightarrow>
                      ruleLoop oneRule elseOf rest
                        (if next' \<noteq> None then next' else prev) outerEe'' e'')
               else ruleLoop oneRule elseOf rest next outerEe' e'))"


text \<open>
  The state a query starts from (spec, "Lifecycle": caches, stacks and the built-in
  error list are created fresh per query): no input, no data overlay, empty stacks,
  caches with one empty scope, outside partial evaluation.
\<close>

definition eval_init :: eval where
  "eval_init =
     \<lparr>findOne = False, defined = False, input = None, data = None, saveSet = None,
      saveStack = [], virtualCache = [Map.empty], comprehensionCache = [Map.empty],
      targetStack = [], functionMocks = [], inliningControl = [], builtinErrors = [],
      ndBuiltinCache = Map.empty, virtualCacheHit = 0, virtualCacheMiss = 0\<rparr>"

section \<open>Function rules: evalFunc\<close>

text \<open>
  \<^verbatim>\<open>evalFunc\<close> holds the index result and the terms of the call: the function's
  reference, the arguments and, when the call captures the result, the output term.
  \<^verbatim>\<open>plug\<close> (\<^verbatim>\<open>bindings.Plug\<close>), \<^verbatim>\<open>isGround\<close> (\<^verbatim>\<open>Term.IsGround\<close>) and \<^verbatim>\<open>unify\<close>
  (\<^verbatim>\<open>eval.unify\<close>) are parameters.
\<close>

record evalFunc =
  ir :: indexResult
  terms :: "val list"

record ops =
  Plug :: "val \<Rightarrow> val"
  IsGround :: "val \<Rightarrow> bool"
  Unify :: "val \<Rightarrow> val \<Rightarrow> eval iterator \<Rightarrow> eval iterator"

text \<open>
  \<^verbatim>\<open>evalFunc.evalCache\<close> (eval.go, 2192-2222). The result is the cache key (on a miss),
  the \<^verbatim>\<open>hit\<close> flag and the error.
\<close>

definition evalFunc_evalCache ::
  "ops \<Rightarrow> evalFunc \<Rightarrow> nat \<Rightarrow> eval iterator \<Rightarrow> eval
     \<Rightarrow> (val list option \<times> bool \<times> error option) \<times> eval" where
  "evalFunc_evalCache env f argCount iter e =
     (let plen = (if length (terms f) = argCount + 2 then length (terms f) - 1
                  else length (terms f));
          cacheKey = map (\<lambda>t. if IsGround env t then t else Plug env t) (take plen (terms f))
      in case fst (vc_Get (virtualCache e) cacheKey) of
           Some cached \<Rightarrow>
             (let e1 = e\<lparr>virtualCacheHit := virtualCacheHit e + 1\<rparr> in
              if argCount + 1 = length (terms f) then
                (if cached = Boolean False then ((None, True, None), e1)
                 else (case iter e1 of (err, e2) \<Rightarrow> ((None, True, err), e2)))
              else (case Unify env (last (terms f)) cached iter e1 of
                      (err, e2) \<Rightarrow> ((None, True, err), e2)))
         | None \<Rightarrow>
             ((Some cacheKey, False, None), e\<lparr>virtualCacheMiss := virtualCacheMiss e + 1\<rparr>))"

text \<open>
  \<^verbatim>\<open>evalFunc.evalOneRule\<close> (eval.go, 2224-2284). \<^verbatim>\<open>evalFunc_evalOneRule_cb\<close> is the function
  literal run at each solution of the rule; it works on the local variables \<^verbatim>\<open>prev\<close>
  and \<^verbatim>\<open>result\<close> and on the evaluator.
\<close>

definition evalFunc_evalOneRule_cb ::
  "evalFunc \<Rightarrow> eval iterator \<Rightarrow> rule \<Rightarrow> val list option \<Rightarrow> val
     \<Rightarrow> ((val option \<times> val option) \<times> eval) iterator" where
  "evalFunc_evalOneRule_cb f iter rule cacheKey v = (\<lambda>((prev, result), e).
     if rule_head_args rule + 1 = length (terms f) \<and> partial e \<and> rule_head_unknown rule then
       (case saveExpr (SavedExpr v) iter e of (err, e') \<Rightarrow> (err, ((prev, result), e')))
     else
       (let e1 = (case cacheKey of
                    Some key \<Rightarrow> e\<lparr>virtualCache := vc_Put (virtualCache e) key (Some v)\<rparr>
                  | None \<Rightarrow> e)
        in if rule_head_args rule + 1 = length (terms f) \<and> v = Boolean False then
             (if prev \<noteq> None \<and> prev \<noteq> Some v
              then (Some (FunctionConflictErr (rule_location rule)), ((prev, Some v), e1))
              else (None, ((Some v, Some v), e1)))
           else if \<not> partial e \<and> prev \<noteq> None then
             (if prev \<noteq> Some v
              then (Some (FunctionConflictErr (rule_location rule)), ((prev, Some v), e1))
              else (None, ((prev, Some v), e1)))
           else
             (case iter e1 of (err, e2) \<Rightarrow> (err, ((Some v, Some v), e2)))))"

definition evalFunc_evalOneRule ::
  "evalFunc \<Rightarrow> eval iterator \<Rightarrow> rule \<Rightarrow> val list option \<Rightarrow> val option \<Rightarrow> bool \<Rightarrow> eval
     \<Rightarrow> (val option \<times> error option) \<times> eval" where
  "evalFunc_evalOneRule f iter rule cacheKey prev fo e =
     (case eval_body fo (partial e) (rule_sols rule) (rule_fin rule)
             (evalFunc_evalOneRule_cb f iter rule cacheKey) ((prev, None), e) of
        (err, ((prev', result), e')) \<Rightarrow> ((result, err), e'))"

text \<open>
  \<^verbatim>\<open>evalFunc.evalValue\<close> (eval.go, 2107-2190). \<^verbatim>\<open>evalFunc_evalValue_miss\<close> is what
  follows the look into the cache: the function literal given to
  \<^verbatim>\<open>withSuppressEarlyExit\<close>. The slice \<^verbatim>\<open>args\<close> that the loop fills for the unification
  of the arguments is part of what \<^verbatim>\<open>rule_sols\<close> stands for.
\<close>

definition evalFunc_evalValue_miss ::
  "evalFunc \<Rightarrow> eval iterator \<Rightarrow> val list option \<Rightarrow> bool \<Rightarrow> eval iterator" where
  "evalFunc_evalValue_miss f iter cacheKey fo e =
     withSuppressEarlyExit
       (case ruleLoop (\<lambda>rule prev e'. evalFunc_evalOneRule f iter rule cacheKey prev fo e')
               (Else (ir f)) (Rules (ir f)) None None e of
          (Inl fatal, e') \<Rightarrow> (Some fatal, e')
        | (Inr (prev, outerEe), e') \<Rightarrow>
            (case Default (ir f) of
               Some d \<Rightarrow>
                 if prev = None then
                   (case evalFunc_evalOneRule f iter d cacheKey prev fo e' of
                      ((next, err), e'') \<Rightarrow> (err, e''))
                 else (outerEe, e')
             | None \<Rightarrow> (outerEe, e')))"

definition evalFunc_evalValue ::
  "ops \<Rightarrow> evalFunc \<Rightarrow> eval iterator \<Rightarrow> nat \<Rightarrow> bool \<Rightarrow> eval iterator" where
  "evalFunc_evalValue env f iter argCount fo e =
     (if \<not> partial e then
        (case evalFunc_evalCache env f argCount iter e of
           ((cacheKey, hit, err), e1) \<Rightarrow>
             if err \<noteq> None then (err, e1)
             else if hit then (None, e1)
             else evalFunc_evalValue_miss f iter cacheKey fo e1)
      else evalFunc_evalValue_miss f iter None fo e)"

section \<open>Complete rules: evalVirtualComplete\<close>







section \<open>Notions used to state the properties of rule sets\<close>

text \<open>
  The value an entry of the index result produces: the plugged head value of the first
  rule among the rule and its \<^verbatim>\<open>else\<close> chain whose body has a solution. A rule is
  single-valued when all the solutions of its body carry the same plugged head value.
  \<^verbatim>\<open>chain_rules\<close> lists the rules of the entries with their \<^verbatim>\<open>else\<close> chains.
\<close>

definition has_solution :: "rule \<Rightarrow> bool" where
  "has_solution r = (rule_sols r \<noteq> [])"

definition produced :: "(rule \<Rightarrow> rule list) \<Rightarrow> rule \<Rightarrow> val option" where
  "produced elseOf r =
     (case find has_solution (r # elseOf r) of
        None \<Rightarrow> None
      | Some x \<Rightarrow> Some (hd (rule_sols x)))"


definition chain_rules :: "(rule \<Rightarrow> rule list) \<Rightarrow> rule list \<Rightarrow> rule list" where
  "chain_rules elseOf rules = concat (map (\<lambda>r. r # elseOf r) rules)"



text \<open>
  \<^verbatim>\<open>cachePut cacheKey v e\<close> is the state after \<^verbatim>\<open>virtualCache.Put(cacheKey, v)\<close> where
  the source guards it with \<^verbatim>\<open>cacheKey != nil\<close>.
\<close>

definition cachePut :: "val list option \<Rightarrow> val \<Rightarrow> eval \<Rightarrow> eval" where
  "cachePut cacheKey v e =
     (case cacheKey of
        Some key \<Rightarrow> e\<lparr>virtualCache := vc_Put (virtualCache e) key (Some v)\<rparr>
      | None \<Rightarrow> e)"


text \<open>
  The key under which \<^verbatim>\<open>evalFunc.evalCache\<close> looks a call up: the function's reference
  and the plugged arguments, without the output term of a call that captures it.
\<close>

definition evalFunc_cacheKey :: "ops \<Rightarrow> evalFunc \<Rightarrow> nat \<Rightarrow> val list" where
  "evalFunc_cacheKey env f argCount =
     map (\<lambda>t. if IsGround env t then t else Plug env t)
       (take (if length (terms f) = argCount + 2 then length (terms f) - 1
              else length (terms f)) (terms f))"

definition countMiss :: "eval \<Rightarrow> eval" where
  "countMiss e = e\<lparr>virtualCacheMiss := virtualCacheMiss e + 1\<rparr>"


section \<open>Negation: evalNot\<close>

text \<open>
  \<^verbatim>\<open>eval.evalNot\<close> (eval.go, 563-600). \<^verbatim>\<open>unknown\<close> is \<^verbatim>\<open>e.unknown(expr, e.bindings)\<close> and
  \<^verbatim>\<open>evalNotPartial\<close> the driver taken in that case. The complement is evaluated in the
  copy that \<^verbatim>\<open>closure\<close> makes of the evaluator; \<^verbatim>\<open>sols\<close> are the solutions of the
  complement and \<^verbatim>\<open>fin\<close> the error its evaluation ends with. \<^verbatim>\<open>evalNot_found\<close> is the
  function literal called at each solution: it sets \<^verbatim>\<open>child.defined\<close>. \<^verbatim>\<open>closure\<close> copies
  the struct by value (\<^verbatim>\<open>*cpy = *e\<close>), so the flag \<^verbatim>\<open>defined\<close> of the child starts as
  that of the evaluator. The flags of the child are its own: the evaluator \<^verbatim>\<open>e\<close> is
  given to the continuation as it is.
\<close>

definition evalNot_found :: "eval iterator" where
  "evalNot_found cpy = (None, cpy\<lparr>defined := True\<rparr>)"

definition evalNot ::
  "bool \<Rightarrow> (eval iterator \<Rightarrow> eval iterator) \<Rightarrow> 'a list \<Rightarrow> error option \<Rightarrow> eval iterator
     \<Rightarrow> eval iterator" where
  "evalNot unknown evalNotPartial sols fin iter e =
     (if unknown then evalNotPartial iter e
      else
        (let cpy = closure e
         in case eval_body (findOne cpy) (partial cpy) sols fin (\<lambda>x. evalNot_found) cpy of
              (Some err, cpy') \<Rightarrow> (Some err, e)
            | (None, cpy') \<Rightarrow> if \<not> defined cpy' then iter e else (None, e)))"

section \<open>Object comprehensions\<close>

text \<open>
  \<^verbatim>\<open>eval.biunifyComprehensionObject\<close> (eval.go, 1496-1518). A solution of the body is
  the pair of the plugged key and the plugged value; \<^verbatim>\<open>loc\<close> is \<^verbatim>\<open>x.Key.Location\<close>. The
  function literal given to \<^verbatim>\<open>child.Run\<close> works on the local object \<^verbatim>\<open>result\<close>; the
  parameter \<^verbatim>\<open>biunify\<close> is the unification of the materialised object with the other
  term, \<^verbatim>\<open>e.biunify(ast.NewTerm(result), b, b1, b2, iter)\<close>.
\<close>

definition biunifyComprehensionObject_cb ::
  "nat \<Rightarrow> val \<times> val \<Rightarrow> ((val \<times> val) list) iterator" where
  "biunifyComprehensionObject_cb loc kv result =
     (case kv of (key, value) \<Rightarrow>
        (case obj_Get result key of
           Some exist \<Rightarrow>
             if exist \<noteq> value then (Some (ObjectDocKeyConflictErr loc), result)
             else (None, obj_Insert key value result)
         | None \<Rightarrow> (None, obj_Insert key value result)))"

definition biunifyComprehensionObject ::
  "nat \<Rightarrow> (val \<times> val) list \<Rightarrow> error option \<Rightarrow> (val \<Rightarrow> eval iterator) \<Rightarrow> eval iterator" where
  "biunifyComprehensionObject loc sols fin biunify e =
     (let cpy = closure e
      in case eval_body (findOne cpy) (partial cpy) sols fin
                (biunifyComprehensionObject_cb loc) [] of
           (Some err, result) \<Rightarrow> (Some err, e)
         | (None, result) \<Rightarrow> biunify (Object result) e)"

text \<open>
  \<^verbatim>\<open>eval.buildComprehensionCacheObject\<close> (eval.go, 1379-1401). A solution of the body is
  the list of the plugged index keys with the plugged key and value of the head. The
  function literal works on the local \<^verbatim>\<open>node\<close>, the cache element under construction,
  a map from the values of the index keys to the object collected for them. The
  function answers the node and the error of \<^verbatim>\<open>child.Run\<close>.
\<close>

definition buildComprehensionCacheObject_cb ::
  "val list \<times> val \<times> val \<Rightarrow> (val list \<rightharpoonup> (val \<times> val) list) iterator" where
  "buildComprehensionCacheObject_cb sol node =
     (case sol of (values, headKey, headValue) \<Rightarrow>
        (case node values of
           Some obj \<Rightarrow> (None, node(values \<mapsto> obj_Insert headKey headValue obj))
         | None \<Rightarrow> (None, node(values \<mapsto> [(headKey, headValue)]))))"

definition buildComprehensionCacheObject ::
  "(val list \<times> val \<times> val) list \<Rightarrow> error option \<Rightarrow> eval
     \<Rightarrow> (val list \<rightharpoonup> (val \<times> val) list) \<times> error option" where
  "buildComprehensionCacheObject sols fin e =
     (let c = child e
      in case eval_body (findOne c) (partial c) sols fin buildComprehensionCacheObject_cb
                Map.empty of
           (err, node) \<Rightarrow> (node, err))"

text \<open>
  Two solutions of the body carry the same key with values that are not equal.
\<close>

definition key_conflict :: "(val \<times> val) list \<Rightarrow> bool" where
  "key_conflict sols =
     list_ex (\<lambda>kv. list_ex (\<lambda>kv'. fst kv = fst kv' \<and> snd kv \<noteq> snd kv') sols) sols"

section \<open>mergeObjects never fails\<close>

lemma mergeObjects_ok_aux:
  "snd (mergeObjects objA objB) = True"
  "snd (mergeObjects_until todo objB result) = False"
  by (induction objA objB and todo objB result rule: mergeObjects_mergeObjects_until.induct)
     (auto simp: mergeObjects.simps split: option.splits val.splits prod.splits)

lemma mergeObjects_ok_eq: "mergeObjects objA objB = (r, ok) \<Longrightarrow> ok"
  using mergeObjects_ok_aux(1) [of objA objB] by simp

lemma map_of_mergeObjects_foreach:
  "map_of objA k \<noteq> None \<Longrightarrow>
     map_of (mergeObjects_foreach objA objB result) k = map_of result k"
  by (induction objB arbitrary: result)
     (auto simp: obj_Get_def obj_Insert_def update_conv' split: option.splits)

lemma map_of_mergeObjects_until_other:
  "k \<notin> fst ` set todo \<Longrightarrow>
     map_of (fst (mergeObjects_until todo objB result)) k = map_of result k"
proof (induction todo arbitrary: result)
  case Nil
  then show ?case by simp
next
  case (Cons kv todo)
  obtain k' v' where kv: "kv = (k', v')" by (cases kv)
  from Cons.prems kv have ne: "k \<noteq> k'" and rest: "k \<notin> fst ` set todo" by auto
  show ?case
    using ne Cons.IH [OF rest]
    by (auto simp: kv obj_Insert_def update_conv' dest: mergeObjects_ok_eq
        split: option.splits val.splits prod.splits)
qed

lemma map_of_mergeObjects_until_kept:
  "distinct (map fst todo) \<Longrightarrow> (k, v) \<in> set todo \<Longrightarrow> obj_Get objB k = Some v2 \<Longrightarrow>
     \<not> ((\<exists>o1. v = Object o1) \<and> (\<exists>o2. v2 = Object o2)) \<Longrightarrow>
     map_of (fst (mergeObjects_until todo objB result)) k = Some v"
proof (induction todo arbitrary: result)
  case Nil
  then show ?case by simp
next
  case (Cons kv todo)
  obtain k' v' where kv: "kv = (k', v')" by (cases kv)
  show ?case
  proof (cases "k' = k")
    case True
    with Cons.prems kv have v': "v' = v" and notin: "k \<notin> fst ` set todo"
      by (auto simp: image_iff)
    show ?thesis
      using Cons.prems(3,4) map_of_mergeObjects_until_other [OF notin]
      by (auto simp: kv True v' obj_Insert_def update_conv' split: val.splits prod.splits)
  next
    case False
    with Cons.prems kv have d: "distinct (map fst todo)" and m: "(k, v) \<in> set todo" by auto
    show ?thesis
      using Cons.IH [OF d m Cons.prems(3,4)]
      by (auto simp: kv dest: mergeObjects_ok_eq split: option.splits val.splits prod.splits)
  qed
qed


lemma merge_ok: "snd (merge a b)"
  by (auto simp: merge_def mergeObjects_ok_aux(1) split: val.splits prod.splits
      dest: mergeObjects_ok_eq)

lemma merge_ok_eq: "merge a b = (m, ok) \<Longrightarrow> ok"
  using merge_ok [of a b] by simp

lemma mergeObjects_keeps_overlay:
  assumes "obj_keys_unique objA" and "obj_Get objA k = Some v" and "obj_Get objB k = Some v2"
    and "\<not> (isObject v \<and> isObject v2)"
  shows "obj_Get (fst (mergeObjects objA objB)) k = Some v"
proof -
  from assms(2) have mem: "(k, v) \<in> set objA"
    by (simp add: obj_Get_def map_of_SomeD)
  from assms(4) have nobj: "\<not> ((\<exists>o1. v = Object o1) \<and> (\<exists>o2. v2 = Object o2))"
    by auto
  from assms(1) have d: "distinct (map fst objA)"
    by (simp add: obj_keys_unique_def)
  obtain r stop where u: "mergeObjects_until objA objB [] = (r, stop)"
    by (cases "mergeObjects_until objA objB []")
  have stop: "stop = False"
    using mergeObjects_ok_aux(2) [of objA objB "[]"] u by simp
  have "map_of (fst (mergeObjects_until objA objB [])) k = Some v"
    by (rule map_of_mergeObjects_until_kept [OF d mem assms(3) nobj])
  then have r: "map_of r k = Some v"
    using u by simp
  have "map_of objA k \<noteq> None"
    using assms(2) by (simp add: obj_Get_def)
  then have "map_of (mergeObjects_foreach objA objB r) k = Some v"
    using r by (simp add: map_of_mergeObjects_foreach)
  then show ?thesis
    by (simp add: mergeObjects.simps u stop obj_Get_def)
qed

lemma resolveReadFromStorage_no_conflict:
  "snd (fst (resolveReadFromStorage loc ref a rd bc)) \<noteq> Some (MergeConflictErr l)"
  by (auto simp: resolveReadFromStorage_def Let_def
      split: storage_read.splits option.splits prod.splits dest: merge_ok_eq)

text \<open>
  Claim C8. \<^verbatim>\<open>mergeObjects\<close> is a total function whose \<^verbatim>\<open>ok\<close> result is always
  \<^verbatim>\<open>true\<close>, and so is \<^verbatim>\<open>merge\<close>; at a key that both objects hold, where one of the two
  values is not an object, the merged object holds the value of the first (overlay)
  object; hence neither the resolver's data read nor its read from storage ever returns
  the merge-conflict error.
\<close>

theorem mergeObjects_never_fails:
  "snd (mergeObjects objA objB)
   \<and> snd (merge a b)
   \<and> (obj_keys_unique objA \<and> obj_Get objA k = Some v \<and> obj_Get objB k = Some v2
        \<and> \<not> (isObject v \<and> isObject v2)
      \<longrightarrow> obj_Get (fst (mergeObjects objA objB)) k = Some v)
   \<and> snd (fst (Resolve unknown plug fnd prefixed args inp dat rd loc ref bc))
        \<noteq> Some (MergeConflictErr l)
   \<and> snd (fst (resolveReadFromStorage loc ref rep rd bc)) \<noteq> Some (MergeConflictErr l)"
proof (intro conjI impI)
  show "snd (mergeObjects objA objB)"
    by (simp add: mergeObjects_ok_aux(1))
  show "snd (merge a b)"
    by (rule merge_ok)
  show "obj_Get (fst (mergeObjects objA objB)) k = Some v"
    if "obj_keys_unique objA \<and> obj_Get objA k = Some v \<and> obj_Get objB k = Some v2
        \<and> \<not> (isObject v \<and> isObject v2)"
    using that mergeObjects_keeps_overlay by blast
  show "snd (fst (resolveReadFromStorage loc ref rep rd bc)) \<noteq> Some (MergeConflictErr l)"
    by (rule resolveReadFromStorage_no_conflict)
  show "snd (fst (Resolve unknown plug fnd prefixed args inp dat rd loc ref bc))
        \<noteq> Some (MergeConflictErr l)"
    by (auto simp: Resolve_def Let_def resolveReadFromStorage_no_conflict
        split: list.splits val.splits option.splits prod.splits dest: merge_ok_eq)
qed

theorem mergeObjects_never_fails_witness:
  "obj_keys_unique [(String ''bar'', Number 10)]
   \<and> obj_Get [(String ''bar'', Number 10)] (String ''bar'') = Some (Number 10)
   \<and> obj_Get [(String ''bar'', Object [(String ''baz'', String ''quz'')]),
               (String ''quz'', Boolean True)] (String ''bar'')
        = Some (Object [(String ''baz'', String ''quz'')])
   \<and> \<not> (isObject (Number 10) \<and> isObject (Object [(String ''baz'', String ''quz'')]))
   \<and> obj_Get (fst (mergeObjects [(String ''bar'', Number 10)]
         [(String ''bar'', Object [(String ''baz'', String ''quz'')]),
          (String ''quz'', Boolean True)])) (String ''bar'') = Some (Number 10)"
  using mergeObjects_never_fails [of "[(String ''bar'', Number 10)]"
      "[(String ''bar'', Object [(String ''baz'', String ''quz'')]),
        (String ''quz'', Boolean True)]" Null Null "String ''bar''" "Number 10"
      "Object [(String ''baz'', String ''quz'')]"]
  by (simp add: obj_keys_unique_def obj_Get_def)

section \<open>The loop over the rules\<close>






lemma ruleLoop_else_none:
  assumes emp: "\<And>r prev e. rule_sols r = [] \<Longrightarrow> rule_fin r = None \<Longrightarrow>
      one r prev e = ((None, None), e)"
  shows "find has_solution erules = None \<Longrightarrow> \<forall>r\<in>set erules. rule_fin r = None \<Longrightarrow>
     ruleLoop_else one erules prev oe e = (Inr (None, oe), e)"
proof (induction erules)
  case Nil
  then show ?case by simp
next
  case (Cons r rest)
  then have "rule_sols r = []" "rule_fin r = None"
    by (auto simp: has_solution_def split: if_splits)
  then have "one r prev e = ((None, None), e)"
    by (simp add: emp)
  with Cons show ?case
    by (auto split: if_splits)
qed



lemma produced_None:
  "produced elseOf r = None \<longleftrightarrow> find has_solution (r # elseOf r) = None"
  by (simp add: produced_def split: option.splits)

lemma chain_rules_Cons: "chain_rules elseOf (r # rest) = r # elseOf r @ chain_rules elseOf rest"
  by (simp add: chain_rules_def)




lemma ruleLoop_none_skip:
  assumes emp: "\<And>r prev e. rule_sols r = [] \<Longrightarrow> rule_fin r = None \<Longrightarrow>
      one r prev e = ((None, None), e)"
  shows "\<forall>r\<in>set rules. produced elseOf r = None \<Longrightarrow>
     \<forall>r\<in>set (chain_rules elseOf rules). rule_fin r = None \<Longrightarrow>
     ruleLoop one elseOf rules None oe e = (Inr (None, oe), e)"
proof (induction rules)
  case Nil
  then show ?case by simp
next
  case (Cons r rest)
  from Cons.prems(2) have Rr: "rule_fin r = None"
    and Re: "\<forall>x\<in>set (elseOf r). rule_fin x = None"
    and Rrest: "\<forall>x\<in>set (chain_rules elseOf rest). rule_fin x = None"
    by (auto simp: chain_rules_Cons)
  from Cons.prems(1) have f: "find has_solution (r # elseOf r) = None"
    by (simp add: produced_None)
  then have nr: "\<not> has_solution r" and fe: "find has_solution (elseOf r) = None"
    by (auto split: if_splits)
  from nr have "rule_sols r = []" by (simp add: has_solution_def)
  then have one: "one r None e = ((None, None), e)"
    using Rr by (simp add: emp)
  from ruleLoop_else_none [where one = one, OF emp fe Re]
  have el: "ruleLoop_else one (elseOf r) None oe e = (Inr (None, oe), e)" .
  from Cons.IH Cons.prems(1) Rrest
  have "ruleLoop one elseOf rest None oe e = (Inr (None, oe), e)" by simp
  with one el show ?case by simp
qed








lemma suppress_wrapped:
  "isEarlyExit x \<Longrightarrow> suppressEarlyExit (Some (wrapErr fo x)) = Some x"
  by (simp add: wrapErr_def)



lemma chain_rules_append:
  "chain_rules elseOf (xs @ ys) = chain_rules elseOf xs @ chain_rules elseOf ys"
  by (simp add: chain_rules_def)

lemma chain_rules_mem: "r \<in> set rules \<Longrightarrow> x \<in> set (r # elseOf r) \<Longrightarrow>
    x \<in> set (chain_rules elseOf rules)"
  by (auto simp: chain_rules_def)

section \<open>A cache hit of a function call\<close>

text \<open>
  Claim C10. A function is called without capturing its output
  (\<^verbatim>\<open>argCount == len(terms) - 1\<close>), outside partial evaluation, and the virtual cache
  holds a term at the key of the call. Then \<^verbatim>\<open>evalValue\<close> counts one hit; when the
  cached term is the literal \<^verbatim>\<open>false\<close> it returns without running the continuation,
  and otherwise it is exactly one run of the continuation on the state with that one
  hit counted. In both cases the result does not depend on the index result: no rule
  is evaluated.
\<close>

theorem evalFunc_cache_hit_uncaptured:
  assumes "\<not> partial e"
    and "argCount + 1 = length (terms f)"
    and "fst (vc_Get (virtualCache e)
           (map (\<lambda>t. if IsGround env t then t else Plug env t) (terms f))) = Some cached"
  shows "evalFunc_evalValue env f iter argCount fo e =
           (if cached = Boolean False
            then (None, e\<lparr>virtualCacheHit := virtualCacheHit e + 1\<rparr>)
            else iter (e\<lparr>virtualCacheHit := virtualCacheHit e + 1\<rparr>))
         \<and> evalFunc_evalValue env (f\<lparr>ir := ir'\<rparr>) iter argCount fo e =
             evalFunc_evalValue env f iter argCount fo e"
proof -
  have plen: "length (terms f) \<noteq> argCount + 2"
    using assms(2) by simp
  have hit: "evalFunc_evalCache env f argCount iter e =
      (if cached = Boolean False
       then ((None, True, None), e\<lparr>virtualCacheHit := virtualCacheHit e + 1\<rparr>)
       else (case iter (e\<lparr>virtualCacheHit := virtualCacheHit e + 1\<rparr>) of
               (err, e2) \<Rightarrow> ((None, True, err), e2)))"
    using assms(2,3) plen by (simp add: evalFunc_evalCache_def Let_def)
  have same: "evalFunc_evalCache env (f\<lparr>ir := ir'\<rparr>) argCount iter e =
      evalFunc_evalCache env f argCount iter e"
    by (simp add: evalFunc_evalCache_def Let_def split: option.splits)
  have main: "evalFunc_evalValue env f iter argCount fo e =
           (if cached = Boolean False
            then (None, e\<lparr>virtualCacheHit := virtualCacheHit e + 1\<rparr>)
            else iter (e\<lparr>virtualCacheHit := virtualCacheHit e + 1\<rparr>))"
    using assms(1) hit
    by (cases "iter (e\<lparr>virtualCacheHit := virtualCacheHit e + 1\<rparr>)")
       (auto simp: evalFunc_evalValue_def)
  have "evalFunc_evalValue env (f\<lparr>ir := ir'\<rparr>) iter argCount fo e =
           (if cached = Boolean False
            then (None, e\<lparr>virtualCacheHit := virtualCacheHit e + 1\<rparr>)
            else iter (e\<lparr>virtualCacheHit := virtualCacheHit e + 1\<rparr>))"
    using assms(1) hit same
    by (cases "iter (e\<lparr>virtualCacheHit := virtualCacheHit e + 1\<rparr>)")
       (auto simp: evalFunc_evalValue_def)
  with main show ?thesis by simp
qed

theorem evalFunc_cache_hit_uncaptured_witness:
  "\<not> partial (eval_init\<lparr>virtualCache :=
        [[[Ref [Var ''data'', String ''f''], Number 1] \<mapsto> Some (Boolean False)]]\<rparr>)
   \<and> (1::nat) + 1 = length (terms \<lparr>ir = \<lparr>Rules = [], Else = (\<lambda>r. []), Default = None,
          EarlyExit = False\<rparr>, terms = [Ref [Var ''data'', String ''f''], Number 1]\<rparr>)
   \<and> fst (vc_Get [[[Ref [Var ''data'', String ''f''], Number 1] \<mapsto> Some (Boolean False)]]
        [Ref [Var ''data'', String ''f''], Number 1]) = Some (Boolean False)
   \<and> evalFunc_evalValue \<lparr>Plug = (\<lambda>t. t), IsGround = (\<lambda>t. True), Unify = (\<lambda>a b k. k)\<rparr>
        \<lparr>ir = \<lparr>Rules = [], Else = (\<lambda>r. []), Default = None, EarlyExit = False\<rparr>,
         terms = [Ref [Var ''data'', String ''f''], Number 1]\<rparr>
        (\<lambda>e. (Some (OtherErr ''continuation''), e)) 1 False
        (eval_init\<lparr>virtualCache :=
          [[[Ref [Var ''data'', String ''f''], Number 1] \<mapsto> Some (Boolean False)]]\<rparr>)
      = (None, eval_init\<lparr>virtualCache :=
          [[[Ref [Var ''data'', String ''f''], Number 1] \<mapsto> Some (Boolean False)]],
          virtualCacheHit := 1\<rparr>)"
  using evalFunc_cache_hit_uncaptured [of
      "eval_init\<lparr>virtualCache :=
        [[[Ref [Var ''data'', String ''f''], Number 1] \<mapsto> Some (Boolean False)]]\<rparr>"
      1
      "\<lparr>ir = \<lparr>Rules = [], Else = (\<lambda>r. []), Default = None, EarlyExit = False\<rparr>,
         terms = [Ref [Var ''data'', String ''f''], Number 1]\<rparr>"
      "\<lparr>Plug = (\<lambda>t. t), IsGround = (\<lambda>t. True), Unify = (\<lambda>a b k. k)\<rparr>"
      "Boolean False" "(\<lambda>e. (Some (OtherErr ''continuation''), e))" False]
  by (simp add: partial_def eval_init_def vc_Get_def)

section \<open>Function rules: conflicts, deduplication and the default rule\<close>



lemma partial_cachePut [simp]: "partial (cachePut ck v e) = partial e"
  by (cases ck) (simp_all add: cachePut_def partial_def)












lemma partial_countMiss [simp]: "partial (countMiss e) = partial e"
  by (simp add: countMiss_def partial_def)




lemma evalFunc_evalOneRule_ir [simp]:
  "evalFunc_evalOneRule (f\<lparr>ir := x\<rparr>) iter r ck prev fo e =
     evalFunc_evalOneRule f iter r ck prev fo e"
proof -
  have "evalFunc_evalOneRule_cb (f\<lparr>ir := x\<rparr>) iter r ck = evalFunc_evalOneRule_cb f iter r ck"
    by (intro ext) (simp add: evalFunc_evalOneRule_cb_def Let_def cong: if_cong)
  then show ?thesis by (simp add: evalFunc_evalOneRule_def)
qed


lemma evalFunc_cacheKey_ir [simp]:
  "evalFunc_cacheKey env (f\<lparr>ir := x\<rparr>) argCount = evalFunc_cacheKey env f argCount"
  by (simp add: evalFunc_cacheKey_def)

section \<open>Conflicts among the rules of a function\<close>



section \<open>Complete rules: conflicts and the order of the rules\<close>














section \<open>Conflicts among complete rules\<close>



section \<open>Negation\<close>

lemma evalNot_body:
  "eval_body False part sols None (\<lambda>x. evalNot_found) c =
     (None, if sols = [] then c else c\<lparr>defined := True\<rparr>)"
proof (induction sols arbitrary: c)
  case Nil
  then show ?case by simp
next
  case (Cons x xs)
  have step: "evalExpr_done False part evalNot_found c = (None, c\<lparr>defined := True\<rparr>)"
    by (simp add: evalExpr_done_def evalNot_found_def)
  show ?case
    by (simp add: step Cons.IH)
qed

lemma evalNot_duality_fresh:
  "\<not> defined e \<Longrightarrow>
     evalNot False evalNotPartial sols None iter e = (if sols = [] then iter e else (None, e))"
  by (simp add: evalNot_def closure_def evalNot_body Let_def)

lemma evalNot_defined_set:
  "defined e \<Longrightarrow> evalNot False evalNotPartial sols None iter e = (None, e)"
  by (simp add: evalNot_def closure_def evalNot_body Let_def)

text \<open>
  Claim C1. Outside partial evaluation, \<^verbatim>\<open>not e\<close> is to run the continuation exactly
  when the complement has no solution. \<^verbatim>\<open>evalNot\<close> does so for an evaluator whose flag
  \<^verbatim>\<open>defined\<close> is not set (\<^verbatim>\<open>evalNot_duality_fresh\<close>). The flag is set on the copy in
  which a complement is evaluated, at its first solution, and \<^verbatim>\<open>closure\<close> and \<^verbatim>\<open>child\<close>
  copy it: an evaluator made from that copy afterwards, such as the one for the body
  of a further rule of the complement, carries it. For such an evaluator \<^verbatim>\<open>evalNot\<close>
  answers \<^verbatim>\<open>nil\<close> without running the continuation although the complement has no
  solution.
\<close>

theorem evalNot_inherits_defined:
  "evalNot False evalNotPartial ([] :: val list) None
      (\<lambda>s. (Some (OtherErr ''continuation''), s)) (eval_init\<lparr>defined := True\<rparr>) =
     (None, eval_init\<lparr>defined := True\<rparr>)
   \<and> defined (child (snd (evalNot_found (closure e))))
   \<and> defined (closure (snd (evalNot_found (closure e))))"
  by (simp add: evalNot_def closure_def child_def evalNot_found_def Let_def)

end
